theory Spec2Isabelle
  imports Main "HOL-Library.AList" "HOL-Library.Multiset"
begin

section \<open>The spinner state engine of StudentApp (spinner.js, storage.js)\<close>

text \<open>
  The module \<^verbatim>\<open>spinner.js\<close> keeps its state in module-level variables and in the
  browser's \<^verbatim>\<open>localStorage\<close>, reached through \<^verbatim>\<open>storage.js\<close>. The embedding threads
  one record through every operation.

  Conventions of the embedding:
  \<^item> An item label and a category name are a \<open>string\<close>; a \<open>char\<close> stands for a code
    unit below 256.
  \<^item> A JavaScript object with string keys is an association list in the order of
    \<^verbatim>\<open>Object.keys\<close>, for keys that are not array indices (those would be listed
    first). Properties inherited from \<^verbatim>\<open>Object.prototype\<close> are not part of the model.
  \<^item> The stored values and the configuration have the types the module writes and
    expects: objects of arrays of strings, booleans, a string.
  \<^item> \<^verbatim>\<open>localStorage\<close> is a record with one optional, already parsed value per key
    that \<^verbatim>\<open>spinner.js\<close> uses; \<open>None\<close> is a key that was never written. The store
    itself does not fail, so the \<^verbatim>\<open>catch\<close> branches of \<^verbatim>\<open>storage.js\<close> are not
    entered.
  \<^item> The values of \<^verbatim>\<open>Math.floor(Math.random() * n)\<close> are parameters of the
    operations that draw them.
  \<^item> Of the page, only the text of the result display and the value of the add
    field are kept; rendering, sound and confetti are left out.
\<close>

subsection \<open>Objects and arrays\<close>

type_synonym 'v js_object = "(string \<times> 'v) list"

text \<open>\<^verbatim>\<open>obj[k]\<close>; \<open>None\<close> is \<^verbatim>\<open>undefined\<close>.\<close>

definition obj_get :: "'v js_object \<Rightarrow> string \<Rightarrow> 'v option" where
  "obj_get obj k = map_of obj k"

text \<open>\<^verbatim>\<open>obj[k] = v\<close>: an existing key keeps its place, a new key goes last.\<close>

definition obj_set :: "string \<Rightarrow> 'v \<Rightarrow> 'v js_object \<Rightarrow> 'v js_object" where
  "obj_set k v obj = AList.update k v obj"

text \<open>\<^verbatim>\<open>delete obj[k]\<close>.\<close>

definition obj_delete :: "string \<Rightarrow> 'v js_object \<Rightarrow> 'v js_object" where
  "obj_delete k obj = AList.delete k obj"

text \<open>\<^verbatim>\<open>Object.keys(obj)\<close>.\<close>

definition obj_keys :: "'v js_object \<Rightarrow> string list" where
  "obj_keys obj = map fst obj"

text \<open>\<^verbatim>\<open>Object.keys(obj)[0]\<close>; \<open>None\<close> is \<^verbatim>\<open>undefined\<close>.\<close>

definition first_key :: "'v js_object \<Rightarrow> string option" where
  "first_key obj = (case obj_keys obj of [] \<Rightarrow> None | k # _ \<Rightarrow> Some k)"

text \<open>
  A property key is converted to a string: \<^verbatim>\<open>obj[undefined]\<close> reads the property
  named \<^verbatim>\<open>"undefined"\<close>.
\<close>

definition key_of :: "string option \<Rightarrow> string" where
  "key_of c = (case c of None \<Rightarrow> ''undefined'' | Some k \<Rightarrow> k)"

text \<open>\<^verbatim>\<open>a || []\<close> for an array or \<^verbatim>\<open>undefined\<close>: an array, even an empty one, is truthy.\<close>

definition or_empty :: "'a list option \<Rightarrow> 'a list" where
  "or_empty a = (case a of None \<Rightarrow> [] | Some xs \<Rightarrow> xs)"

text \<open>\<^verbatim>\<open>if (!obj[k]) obj[k] = []; obj[k].push(x)\<close>.\<close>

definition obj_push :: "string \<Rightarrow> 'a \<Rightarrow> 'a list js_object \<Rightarrow> 'a list js_object" where
  "obj_push k x obj = obj_set k (or_empty (obj_get obj k) @ [x]) obj"

text \<open>\<^verbatim>\<open>arr.splice(index, 1)\<close>: the array without the element at \<open>index\<close>.\<close>

definition splice1 :: "nat \<Rightarrow> 'a list \<Rightarrow> 'a list" where
  "splice1 index arr = take index arr @ drop (Suc index) arr"

text \<open>\<^verbatim>\<open>[pool[i], pool[j]] = [pool[j], pool[i]]\<close>: both reads happen before both writes.\<close>

definition swap :: "nat \<Rightarrow> nat \<Rightarrow> 'a list \<Rightarrow> 'a list" where
  "swap i j pool = (pool[i := pool ! j])[j := pool ! i]"

text \<open>
  \<^verbatim>\<open>String.prototype.trim\<close>. The white space and line terminators below 256 are
  U+0009 to U+000D, U+0020 and U+00A0.
\<close>

definition is_white_space :: "char \<Rightarrow> bool" where
  "is_white_space c = ((of_char c :: nat) \<in> {9, 10, 11, 12, 13, 32, 160})"

definition trim :: "string \<Rightarrow> string" where
  "trim s = rev (dropWhile is_white_space (rev (dropWhile is_white_space s)))"

subsection \<open>storage.js\<close>

record local_storage =
  st_additions :: "string list js_object option"
  st_exclusions :: "string list js_object option"
  st_history :: "string list js_object option"
  st_excludePicked :: "bool option"
  st_showHistory :: "bool option"
  st_activeCategory :: "string option"

text \<open>\<^verbatim>\<open>get(key, defaultValue)\<close>, applied to the slot of the key.\<close>

definition storageGet :: "'a option \<Rightarrow> 'a \<Rightarrow> 'a" where
  "storageGet slot defaultValue = (case slot of None \<Rightarrow> defaultValue | Some v \<Rightarrow> v)"

subsection \<open>The state of spinner.js\<close>

record spinner =
  categories :: "string list js_object"
  baseCategories :: "string list js_object"
  additions :: "string list js_object"
  currentCategory :: "string option"
  history :: "string list js_object"
  excludePicked :: bool
  showHistory :: bool
  localStorage :: local_storage
  resultDisplay :: string
  addInput :: string

datatype js_error = TypeError

text \<open>The argument of \<^verbatim>\<open>init\<close>: \<open>None\<close> is a configuration without \<^verbatim>\<open>categories\<close>.\<close>

record spinner_config =
  cfg_categories :: "string list js_object option"

subsection \<open>init\<close>

text \<open>
  The body of the \<^verbatim>\<open>forEach\<close> of \<^verbatim>\<open>init\<close> for one category: the pool is
  \<^verbatim>\<open>base.concat(added).filter((item) => !excluded.includes(item))\<close>.
\<close>

definition build_pool :: "string list \<Rightarrow> string list \<Rightarrow> string list \<Rightarrow> string list" where
  "build_pool base added excluded = filter (\<lambda>item. item \<notin> set excluded) (base @ added)"

text \<open>
  The loop over \<^verbatim>\<open>Object.keys(baseCategories)\<close>. Every \<open>cat\<close> it visits is a key of
  \<open>base\<close>, so the lookup \<^verbatim>\<open>baseCategories[cat]\<close> finds an array there.
\<close>

definition build_categories ::
  "string list js_object \<Rightarrow> string list js_object \<Rightarrow> string list js_object \<Rightarrow> string list js_object"
where
  "build_categories base adds excl =
     fold (\<lambda>cat cats.
             obj_set cat
               (build_pool (or_empty (obj_get base cat)) (or_empty (obj_get adds cat))
                  (or_empty (obj_get excl cat)))
               cats)
       (obj_keys base) []"

text \<open>
  \<^verbatim>\<open>populateCategorySelect\<close>, as far as it sets \<^verbatim>\<open>currentCategory\<close>: the saved
  category when it names a pool, the first category otherwise.
\<close>

definition populateCategorySelect :: "spinner \<Rightarrow> spinner" where
  "populateCategorySelect s =
     (let savedCat = (case st_activeCategory (localStorage s) of
                        None \<Rightarrow> first_key (categories s)
                      | Some c \<Rightarrow> Some c)
      in if obj_get (categories s) (key_of savedCat) \<noteq> None
         then s\<lparr>currentCategory := savedCat\<rparr>
         else s\<lparr>currentCategory := first_key (categories s)\<rparr>)"

text \<open>\<^verbatim>\<open>restoreState\<close>: the last pick of the current category is shown again.\<close>

definition restoreState :: "spinner \<Rightarrow> spinner" where
  "restoreState s =
     (case obj_get (history s) (key_of (currentCategory s)) of
        None \<Rightarrow> s
      | Some h \<Rightarrow> if length h > 0 then s\<lparr>resultDisplay := last h\<rparr> else s)"

definition init :: "spinner_config \<Rightarrow> spinner \<Rightarrow> spinner" where
  "init spinnerConfig s =
     (let st = localStorage s;
          base = (case cfg_categories spinnerConfig of None \<Rightarrow> [] | Some c \<Rightarrow> c);
          adds = storageGet (st_additions st) [];
          exclusions = storageGet (st_exclusions st) [];
          s1 = s\<lparr>baseCategories := base,
                 additions := adds,
                 history := storageGet (st_history st) [],
                 excludePicked := storageGet (st_excludePicked st) False,
                 showHistory := storageGet (st_showHistory st) False,
                 categories := build_categories base adds exclusions\<rparr>
      in restoreState (populateCategorySelect s1))"

subsection \<open>spin\<close>

text \<open>
  \<open>index\<close> is the value of \<^verbatim>\<open>Math.floor(Math.random() * pool.length)\<close>, which lies
  below \<^verbatim>\<open>pool.length\<close>. A pool that is not empty is the array stored in
  \<^verbatim>\<open>categories[currentCategory]\<close>, so \<^verbatim>\<open>splice\<close> changes that entry.
\<close>

definition spin :: "nat \<Rightarrow> spinner \<Rightarrow> spinner" where
  "spin index s =
     (let cur = key_of (currentCategory s);
          pool = or_empty (obj_get (categories s) cur)
      in if length pool = 0 then s\<lparr>resultDisplay := ''No items available''\<rparr>
         else
           let item = pool ! index;
               s1 = (if excludePicked s
                     then
                       let exclusions = storageGet (st_exclusions (localStorage s)) []
                       in s\<lparr>categories := obj_set cur (splice1 index pool) (categories s),
                            localStorage := (localStorage s)
                              \<lparr>st_exclusions := Some (obj_push cur item exclusions)\<rparr>\<rparr>
                     else s);
               history' = obj_push cur item (history s1)
           in s1\<lparr>history := history',
                 localStorage := (localStorage s1)\<lparr>st_history := Some history'\<rparr>,
                 resultDisplay := item\<rparr>)"

subsection \<open>shuffle\<close>

text \<open>
  The loop \<^verbatim>\<open>for (let i = pool.length - 1; i > 0; i--)\<close>, with \<open>rnd i\<close> the value of
  \<^verbatim>\<open>Math.floor(Math.random() * (i + 1))\<close> drawn in the round of \<open>i\<close>; it is at most
  \<open>i\<close>. The first argument is the loop variable.
\<close>

fun shuffle_loop :: "nat \<Rightarrow> (nat \<Rightarrow> nat) \<Rightarrow> 'a list \<Rightarrow> 'a list" where
  "shuffle_loop 0 rnd pool = pool"
| "shuffle_loop (Suc i) rnd pool = shuffle_loop i rnd (swap (Suc i) (rnd (Suc i)) pool)"

text \<open>
  Without an entry for the current category the loop runs on a fresh empty array
  that nothing else refers to.
\<close>

definition shuffle :: "(nat \<Rightarrow> nat) \<Rightarrow> spinner \<Rightarrow> spinner" where
  "shuffle rnd s =
     (let cur = key_of (currentCategory s)
      in (case obj_get (categories s) cur of
            None \<Rightarrow> s
          | Some pool \<Rightarrow>
              s\<lparr>categories := obj_set cur (shuffle_loop (length pool - 1) rnd pool) (categories s)\<rparr>)
         \<lparr>resultDisplay := ''Shuffled!''\<rparr>)"

subsection \<open>reset\<close>

text \<open>
  \<^verbatim>\<open>[...baseCategories[currentCategory]]\<close> throws a \<^verbatim>\<open>TypeError\<close> when the current
  category has no base array; by then the exclusions and the history of the category
  are already deleted and stored. \<open>Inl\<close> carries the error and the state it leaves.
\<close>

definition reset :: "spinner \<Rightarrow> (js_error \<times> spinner) + spinner" where
  "reset s =
     (let cur = key_of (currentCategory s);
          exclusions = obj_delete cur (storageGet (st_exclusions (localStorage s)) []);
          history' = obj_delete cur (history s);
          s1 = s\<lparr>history := history',
                 localStorage := (localStorage s)
                   \<lparr>st_exclusions := Some exclusions, st_history := Some history'\<rparr>\<rparr>
      in case obj_get (baseCategories s) cur of
           None \<Rightarrow> Inl (TypeError, s1)
         | Some base \<Rightarrow>
             Inr (s1\<lparr>categories :=
                        obj_set cur (base @ or_empty (obj_get (additions s) cur)) (categories s),
                      resultDisplay := ''Reset!''\<rparr>))"

subsection \<open>addNewItem, clearHistory, getExportCategories\<close>

definition addNewItem :: "spinner \<Rightarrow> spinner" where
  "addNewItem s =
     (let text = trim (addInput s);
          cur = key_of (currentCategory s)
      in if text = [] then s
         else
           let additions' = obj_push cur text (additions s)
           in s\<lparr>additions := additions',
                localStorage := (localStorage s)\<lparr>st_additions := Some additions'\<rparr>,
                categories := obj_push cur text (categories s),
                addInput := [],
                resultDisplay := ''Added: '' @ text\<rparr>)"

definition clearHistory :: "spinner \<Rightarrow> spinner" where
  "clearHistory s =
     (let history' = obj_delete (key_of (currentCategory s)) (history s)
      in s\<lparr>history := history',
           localStorage := (localStorage s)\<lparr>st_history := Some history'\<rparr>,
           resultDisplay := ''History cleared''\<rparr>)"

definition getExportCategories :: "spinner \<Rightarrow> string list js_object" where
  "getExportCategories s =
     fold (\<lambda>cat out.
             obj_set cat (or_empty (obj_get (baseCategories s) cat)
                          @ or_empty (obj_get (additions s) cat)) out)
       (obj_keys (baseCategories s)) []"

subsection \<open>A classroom used in the examples\<close>

text \<open>
  The module variables as the page leaves them before \<^verbatim>\<open>init\<close> runs.
  \<^verbatim>\<open>currentCategory\<close> starts as \<^verbatim>\<open>null\<close>; \<^verbatim>\<open>init\<close> assigns it before anything reads it.
\<close>

definition page_load :: "local_storage \<Rightarrow> spinner" where
  "page_load st =
     \<lparr>categories = [], baseCategories = [], additions = [], currentCategory = None,
      history = [], excludePicked = False, showHistory = False, localStorage = st,
      resultDisplay = ''Press Spin to start!'', addInput = []\<rparr>"

definition class_config :: spinner_config where
  "class_config =
     \<lparr>cfg_categories =
        Some [(''Students'', [''Ari'', ''Leah'', ''Noam'']), (''Topics'', [''Math''])]\<rparr>"

text \<open>
  A store left by an earlier configuration: it still names the category
  \<^verbatim>\<open>Removed\<close>, which \<open>class_config\<close> no longer has.
\<close>

definition class_storage :: local_storage where
  "class_storage =
     \<lparr>st_additions = Some [(''Students'', [''Dana'']), (''Removed'', [''Old''])],
      st_exclusions =
        Some [(''Students'', [''Noam'']), (''Removed'', [''Gone'']), (''Topics'', [''Chess''])],
      st_history = None,
      st_excludePicked = Some True,
      st_showHistory = None,
      st_activeCategory = Some ''Removed''\<rparr>"

text \<open>The state in which \<open>init class_config\<close> leaves the page that loaded \<open>class_storage\<close>.\<close>

definition class_state :: spinner where
  "class_state =
     \<lparr>categories = [(''Students'', [''Ari'', ''Leah'', ''Dana'']), (''Topics'', [''Math''])],
      baseCategories = [(''Students'', [''Ari'', ''Leah'', ''Noam'']), (''Topics'', [''Math''])],
      additions = [(''Students'', [''Dana'']), (''Removed'', [''Old''])],
      currentCategory = Some ''Students'',
      history = [],
      excludePicked = True,
      showHistory = False,
      localStorage = class_storage,
      resultDisplay = ''Press Spin to start!'',
      addInput = []\<rparr>"

text \<open>
  A configuration whose \<^verbatim>\<open>categories\<close> object has no key; \<^verbatim>\<open>validateConfig\<close> of
  the application accepts it.
\<close>

definition empty_config :: spinner_config where
  "empty_config = \<lparr>cfg_categories = Some []\<rparr>"

text \<open>The state in which \<open>init empty_config\<close> leaves the page that loaded \<open>class_storage\<close>.\<close>

definition no_categories :: spinner where
  "no_categories =
     \<lparr>categories = [],
      baseCategories = [],
      additions = [(''Students'', [''Dana'']), (''Removed'', [''Old''])],
      currentCategory = None,
      history = [],
      excludePicked = True,
      showHistory = False,
      localStorage = class_storage,
      resultDisplay = ''Press Spin to start!'',
      addInput = []\<rparr>"

text \<open>The same page when the store holds no additions: the pool has two students.\<close>

definition two_students :: spinner where
  "two_students =
     class_state
       \<lparr>categories := [(''Students'', [''Ari'', ''Leah'']), (''Topics'', [''Math''])],
        additions := [],
        localStorage := class_storage\<lparr>st_additions := None\<rparr>\<rparr>"

text \<open>
  \<open>class_state\<close> after \<^verbatim>\<open>Ari\<close> was typed into the add field and added: the pool
  holds the label twice.
\<close>

definition twins :: spinner where
  "twins =
     class_state
       \<lparr>categories := [(''Students'', [''Ari'', ''Leah'', ''Dana'', ''Ari'']), (''Topics'', [''Math''])],
        additions := [(''Students'', [''Dana'', ''Ari'']), (''Removed'', [''Old''])],
        localStorage := class_storage
          \<lparr>st_additions := Some [(''Students'', [''Dana'', ''Ari'']), (''Removed'', [''Old''])]\<rparr>,
        resultDisplay := ''Added: Ari''\<rparr>"

section \<open>Properties\<close>

subsection \<open>Objects\<close>

lemmas obj_simps = obj_get_def obj_set_def obj_delete_def obj_keys_def first_key_def key_of_def
  or_empty_def obj_push_def storageGet_def splice1_def

lemmas class_simps = class_state_def class_config_def class_storage_def page_load_def
  no_categories_def empty_config_def

lemma obj_get_Nil: "obj_get [] k = None"
  by (simp add: obj_get_def)

lemma obj_get_set: "obj_get (obj_set k v obj) k' = (if k' = k then Some v else obj_get obj k')"
  by (simp add: obj_get_def obj_set_def update_conv')

lemma obj_get_delete: "obj_get (obj_delete k obj) k' = (if k' = k then None else obj_get obj k')"
  by (simp add: obj_get_def obj_delete_def delete_conv')

lemma obj_get_push:
  "obj_get (obj_push k x obj) k'
     = (if k' = k then Some (or_empty (obj_get obj k) @ [x]) else obj_get obj k')"
  by (simp add: obj_push_def obj_get_set)

lemma obj_get_keys: "obj_get obj k = Some v \<Longrightarrow> k \<in> set (obj_keys obj)"
  by (auto simp: obj_get_def obj_keys_def dest: map_of_SomeD intro: rev_image_eqI)

lemma obj_get_None_keys: "obj_get obj k = None \<longleftrightarrow> k \<notin> set (obj_keys obj)"
  by (simp add: obj_get_def obj_keys_def map_of_eq_None_iff)

lemma obj_get_fold_set:
  "obj_get (fold (\<lambda>cat cats. obj_set cat (f cat) cats) ks acc) c
     = (if c \<in> set ks then Some (f c) else obj_get acc c)"
  by (induction ks arbitrary: acc) (auto simp: obj_get_set)

lemma class_state_current: "key_of (currentCategory class_state) = ''Students''"
  by (simp add: class_state_def key_of_def)

lemma class_state_pool:
  "obj_get (categories class_state) (key_of (currentCategory class_state))
     = Some [''Ari'', ''Leah'', ''Dana'']"
  by (simp add: class_state_def key_of_def obj_get_def)

subsection \<open>spin\<close>

text \<open>
  C5. A spin on an empty pool, whether the current category has an empty array or no
  array at all, only writes \<^verbatim>\<open>No items available\<close> to the result display: it is an
  ordinary return, and the pools, the history, the additions and the whole store,
  with its exclusions, stay as they were. The setting \<open>excludePicked\<close> plays no part.
\<close>

theorem spin_empty_pool:
  assumes "or_empty (obj_get (categories s) (key_of (currentCategory s))) = []"
  shows "spin index s = s\<lparr>resultDisplay := ''No items available''\<rparr>
       \<and> resultDisplay (spin index s) = ''No items available''
       \<and> categories (spin index s) = categories s
       \<and> history (spin index s) = history s
       \<and> additions (spin index s) = additions s
       \<and> localStorage (spin index s) = localStorage s"
  using assms by (simp add: spin_def Let_def)

theorem spin_empty_pool_witness:
  "or_empty (obj_get (categories no_categories) (key_of (currentCategory no_categories))) = []
   \<and> excludePicked (class_state\<lparr>categories := [(''Students'', [])]\<rparr>)
   \<and> resultDisplay (spin 0 no_categories) = ''No items available''
   \<and> localStorage (spin 0 no_categories) = class_storage
   \<and> history (spin 0 no_categories) = []
   \<and> spin 0 (class_state\<lparr>categories := [(''Students'', [])]\<rparr>)
       = class_state\<lparr>categories := [(''Students'', [])],
                      resultDisplay := ''No items available''\<rparr>"
proof -
  have absent: "or_empty (obj_get (categories no_categories)
      (key_of (currentCategory no_categories))) = []"
    by (simp add: no_categories_def obj_simps)
  have emptied: "or_empty (obj_get (categories (class_state\<lparr>categories := [(''Students'', [])]\<rparr>))
      (key_of (currentCategory (class_state\<lparr>categories := [(''Students'', [])]\<rparr>)))) = []"
    by (simp add: class_state_def obj_simps)
  show ?thesis
    using absent spin_empty_pool [OF absent, of 0] spin_empty_pool [OF emptied, of 0]
    by (simp add: no_categories_def class_state_def)
qed

text \<open>
  C4. With \<open>excludePicked\<close> off, a spin on a pool that is not empty, at any index
  below its length, leaves every pool as it is (so the pool of the current category
  keeps its elements, their order and its length) and leaves the stored exclusions
  as they are; the history of the current category gains the picked label as its
  last entry, the other histories stay, and the history is stored.
\<close>

theorem spin_keep:
  assumes "\<not> excludePicked s"
    and "obj_get (categories s) (key_of (currentCategory s)) = Some pool"
    and "pool \<noteq> []"
    and "index < length pool"
  shows "categories (spin index s) = categories s
       \<and> obj_get (categories (spin index s)) (key_of (currentCategory s)) = Some pool
       \<and> st_exclusions (localStorage (spin index s)) = st_exclusions (localStorage s)
       \<and> obj_get (history (spin index s)) (key_of (currentCategory s))
           = Some (or_empty (obj_get (history s) (key_of (currentCategory s))) @ [pool ! index])
       \<and> (\<forall>c. c \<noteq> key_of (currentCategory s) \<longrightarrow>
             obj_get (history (spin index s)) c = obj_get (history s) c)
       \<and> st_history (localStorage (spin index s)) = Some (history (spin index s))
       \<and> resultDisplay (spin index s) = pool ! index"
  using assms by (simp add: spin_def Let_def or_empty_def obj_get_push)

theorem spin_keep_witness:
  "\<not> excludePicked (class_state\<lparr>excludePicked := False\<rparr>)
   \<and> (1::nat) < length [''Ari'', ''Leah'', ''Dana'']
   \<and> categories (spin 1 (class_state\<lparr>excludePicked := False\<rparr>))
       = [(''Students'', [''Ari'', ''Leah'', ''Dana'']), (''Topics'', [''Math''])]
   \<and> st_exclusions (localStorage (spin 1 (class_state\<lparr>excludePicked := False\<rparr>)))
       = Some [(''Students'', [''Noam'']), (''Removed'', [''Gone'']), (''Topics'', [''Chess''])]
   \<and> obj_get (history (spin 1 (class_state\<lparr>excludePicked := False\<rparr>))) ''Students''
       = Some [''Leah'']
   \<and> obj_get (history (spin 1 (class_state\<lparr>excludePicked := False\<rparr>))) ''Topics'' = None"
proof -
  let ?s = "class_state\<lparr>excludePicked := False\<rparr>"
  have off: "\<not> excludePicked ?s"
    by simp
  have pool: "obj_get (categories ?s) (key_of (currentCategory ?s)) = Some [''Ari'', ''Leah'', ''Dana'']"
    using class_state_pool by simp
  have ne: "[''Ari'', ''Leah'', ''Dana''] \<noteq> []"
    by simp
  have idx: "(1::nat) < length [''Ari'', ''Leah'', ''Dana'']"
    by simp
  note kept = spin_keep [OF off pool ne idx]
  have cur: "key_of (currentCategory ?s) = ''Students''"
    using class_state_current by simp
  have other: "obj_get (history (spin 1 ?s)) ''Topics'' = obj_get (history ?s) ''Topics''"
    using kept cur by simp
  show ?thesis
    using kept other
    by (simp add: cur) (simp add: class_state_def class_storage_def obj_simps)
qed

text \<open>
  C1. With \<open>excludePicked\<close> on, a spin on a pool of length \<open>N > 0\<close> at an index
  \<open>index < N\<close> leaves, as the pool of the current category, the old pool without the
  element at \<open>index\<close>: its length is \<open>N - 1\<close> and the other elements keep their order
  (those before \<open>index\<close> stay in place, those after it move down by one). The other
  pools stay. The picked label is appended to the stored exclusions of the current
  category and is appended, as one entry, to the end of its history, which is stored.
\<close>

theorem spin_exclude:
  assumes "excludePicked s"
    and "obj_get (categories s) (key_of (currentCategory s)) = Some pool"
    and "pool \<noteq> []"
    and "index < length pool"
  shows "obj_get (categories (spin index s)) (key_of (currentCategory s))
           = Some (take index pool @ drop (Suc index) pool)
       \<and> length (take index pool @ drop (Suc index) pool) = length pool - 1
       \<and> (\<forall>k. k < length pool - 1 \<longrightarrow>
             (take index pool @ drop (Suc index) pool) ! k
               = (if k < index then pool ! k else pool ! Suc k))
       \<and> (\<forall>c. c \<noteq> key_of (currentCategory s) \<longrightarrow>
             obj_get (categories (spin index s)) c = obj_get (categories s) c)
       \<and> obj_get (storageGet (st_exclusions (localStorage (spin index s))) [])
             (key_of (currentCategory s))
           = Some (or_empty (obj_get (storageGet (st_exclusions (localStorage s)) [])
                     (key_of (currentCategory s))) @ [pool ! index])
       \<and> obj_get (history (spin index s)) (key_of (currentCategory s))
           = Some (or_empty (obj_get (history s) (key_of (currentCategory s))) @ [pool ! index])
       \<and> length (or_empty (obj_get (history (spin index s)) (key_of (currentCategory s))))
           = Suc (length (or_empty (obj_get (history s) (key_of (currentCategory s)))))
       \<and> st_history (localStorage (spin index s)) = Some (history (spin index s))
       \<and> resultDisplay (spin index s) = pool ! index"
proof -
  have nth: "\<forall>k. k < length pool - 1 \<longrightarrow>
      (take index pool @ drop (Suc index) pool) ! k = (if k < index then pool ! k else pool ! Suc k)"
    using assms(4) by (auto simp: nth_append min_def)
  have rest: "obj_get (categories (spin index s)) (key_of (currentCategory s))
           = Some (take index pool @ drop (Suc index) pool)
       \<and> length (take index pool @ drop (Suc index) pool) = length pool - 1
       \<and> (\<forall>c. c \<noteq> key_of (currentCategory s) \<longrightarrow>
             obj_get (categories (spin index s)) c = obj_get (categories s) c)
       \<and> obj_get (storageGet (st_exclusions (localStorage (spin index s))) [])
             (key_of (currentCategory s))
           = Some (or_empty (obj_get (storageGet (st_exclusions (localStorage s)) [])
                     (key_of (currentCategory s))) @ [pool ! index])
       \<and> obj_get (history (spin index s)) (key_of (currentCategory s))
           = Some (or_empty (obj_get (history s) (key_of (currentCategory s))) @ [pool ! index])
       \<and> st_history (localStorage (spin index s)) = Some (history (spin index s))
       \<and> resultDisplay (spin index s) = pool ! index"
    using assms
    by (simp add: spin_def Let_def or_empty_def obj_get_push obj_get_set splice1_def
        storageGet_def)
  then have "length (or_empty (obj_get (history (spin index s)) (key_of (currentCategory s))))
           = Suc (length (or_empty (obj_get (history s) (key_of (currentCategory s)))))"
    by (simp add: or_empty_def)
  with nth rest show ?thesis
    by blast
qed

theorem spin_exclude_witness:
  "excludePicked class_state
   \<and> (1::nat) < length [''Ari'', ''Leah'', ''Dana'']
   \<and> obj_get (categories (spin 1 class_state)) ''Students'' = Some [''Ari'', ''Dana'']
   \<and> obj_get (categories (spin 1 class_state)) ''Topics'' = Some [''Math'']
   \<and> obj_get (storageGet (st_exclusions (localStorage (spin 1 class_state))) []) ''Students''
       = Some [''Noam'', ''Leah'']
   \<and> obj_get (history (spin 1 class_state)) ''Students'' = Some [''Leah'']
   \<and> resultDisplay (spin 1 class_state) = ''Leah''"
proof -
  have on: "excludePicked class_state"
    by (simp add: class_state_def)
  have ne: "[''Ari'', ''Leah'', ''Dana''] \<noteq> []"
    by simp
  have idx: "(1::nat) < length [''Ari'', ''Leah'', ''Dana'']"
    by simp
  note removed = spin_exclude [OF on class_state_pool ne idx]
  have other: "obj_get (categories (spin 1 class_state)) ''Topics''
      = obj_get (categories class_state) ''Topics''"
    using removed by (simp add: class_state_current)
  show ?thesis
    using on removed other
    by (simp add: class_state_current) (simp add: class_state_def class_storage_def obj_simps)
qed

subsection \<open>init\<close>

lemma obj_get_build_categories:
  "obj_get (build_categories base adds excl) cat
     = (case obj_get base cat of
          None \<Rightarrow> None
        | Some b \<Rightarrow> Some (build_pool b (or_empty (obj_get adds cat)) (or_empty (obj_get excl cat))))"
proof (cases "obj_get base cat")
  case None
  then have "cat \<notin> set (obj_keys base)"
    by (simp add: obj_get_None_keys)
  with None show ?thesis
    by (simp add: build_categories_def obj_get_fold_set obj_get_Nil)
next
  case (Some b)
  then have "cat \<in> set (obj_keys base)"
    by (rule obj_get_keys)
  with Some show ?thesis
    by (simp add: build_categories_def obj_get_fold_set or_empty_def)
qed

lemma categories_init:
  "categories (init cfg s)
     = build_categories (case cfg_categories cfg of None \<Rightarrow> [] | Some c \<Rightarrow> c)
         (storageGet (st_additions (localStorage s)) [])
         (storageGet (st_exclusions (localStorage s)) [])"
  by (simp add: init_def Let_def restoreState_def populateCategorySelect_def split: option.splits)

lemma no_categories_init: "init empty_config (page_load class_storage) = no_categories"
  by (simp add: init_def build_categories_def build_pool_def populateCategorySelect_def
      restoreState_def Let_def class_simps obj_simps)

lemma two_students_init:
  "init class_config (page_load (class_storage\<lparr>st_additions := None\<rparr>)) = two_students"
  by (simp add: init_def build_categories_def build_pool_def populateCategorySelect_def
      restoreState_def Let_def two_students_def class_simps obj_simps)

lemma class_state_init: "init class_config (page_load class_storage) = class_state"
  by (simp add: init_def build_categories_def build_pool_def populateCategorySelect_def
      restoreState_def Let_def class_simps obj_simps)

text \<open>
  C2. For every category of the configuration, the pool that \<^verbatim>\<open>init\<close> computes is
  the base array followed by the stored additions of the category, without every
  label that occurs in its stored exclusions, the remaining labels in their order.
  With an empty base and no additions the pool is empty, and exclusions that name
  no label of base and additions change nothing.
\<close>

theorem init_pool:
  assumes "cfg_categories cfg = Some config"
    and "obj_get config cat = Some base"
    and "added = or_empty (obj_get (storageGet (st_additions (localStorage s)) []) cat)"
    and "excluded = or_empty (obj_get (storageGet (st_exclusions (localStorage s)) []) cat)"
  shows "obj_get (categories (init cfg s)) cat
           = Some (filter (\<lambda>item. item \<notin> set excluded) (base @ added))
       \<and> (base = [] \<and> added = [] \<longrightarrow> obj_get (categories (init cfg s)) cat = Some [])
       \<and> (set excluded \<inter> set (base @ added) = {} \<longrightarrow>
            obj_get (categories (init cfg s)) cat = Some (base @ added))"
proof -
  have pool: "obj_get (categories (init cfg s)) cat
           = Some (filter (\<lambda>item. item \<notin> set excluded) (base @ added))"
    using assms by (simp add: categories_init obj_get_build_categories build_pool_def)
  have "filter (\<lambda>item. item \<notin> set excluded) (base @ added) = base @ added"
    if "set excluded \<inter> set (base @ added) = {}"
    using that by (intro filter_True) auto
  with pool show ?thesis by auto
qed

theorem init_pool_witness:
  "obj_get (categories (init class_config (page_load class_storage))) ''Students''
     = Some [''Ari'', ''Leah'', ''Dana'']
   \<and> obj_get (categories (init class_config (page_load class_storage))) ''Topics''
     = Some [''Math'']
   \<and> obj_get (categories (init \<lparr>cfg_categories = Some [(''Removed'', [])]\<rparr>
                              (page_load (class_storage\<lparr>st_additions := None\<rparr>)))) ''Removed''
     = Some []"
proof -
  have cfg: "cfg_categories class_config
      = Some [(''Students'', [''Ari'', ''Leah'', ''Noam'']), (''Topics'', [''Math''])]"
    by (simp add: class_config_def)
  have students: "obj_get [(''Students'', [''Ari'', ''Leah'', ''Noam'']), (''Topics'', [''Math''])]
      ''Students'' = Some [''Ari'', ''Leah'', ''Noam'']"
    by (simp add: obj_get_def)
  have topics: "obj_get [(''Students'', [''Ari'', ''Leah'', ''Noam'']), (''Topics'', [''Math''])]
      ''Topics'' = Some [''Math'']"
    by (simp add: obj_get_def)
  have cfg': "cfg_categories \<lparr>cfg_categories = Some [(''Removed'', [])]\<rparr>
      = Some [(''Removed'', [])]"
    by simp
  have removed: "obj_get [(''Removed'', [])] ''Removed'' = Some ([] :: string list)"
    by (simp add: obj_get_def)
  show ?thesis
    using init_pool [OF cfg students refl refl, of "page_load class_storage"]
      init_pool [OF cfg topics refl refl, of "page_load class_storage"]
      init_pool [OF cfg' removed refl refl, of "page_load (class_storage\<lparr>st_additions := None\<rparr>)"]
    by (simp add: class_simps obj_simps)
qed

subsection \<open>reset\<close>

text \<open>
  C3. When the current category \<open>C\<close> is a category of the base configuration, with
  base array \<open>base\<close>, \<^verbatim>\<open>reset\<close> returns normally. The pool of \<open>C\<close> becomes \<open>base\<close>
  followed by the additions of \<open>C\<close>; the additions, in the module and in the store,
  and the base configuration are kept. The stored exclusions and the history lose
  the entry of \<open>C\<close>, and the history is stored. For every other category the pool,
  the stored exclusions and the history are as before.
\<close>

theorem reset_category:
  assumes "obj_get (baseCategories s) (key_of (currentCategory s)) = Some base"
  shows "\<exists>s'. reset s = Inr s'
       \<and> resultDisplay s' = ''Reset!''
       \<and> obj_get (categories s') (key_of (currentCategory s))
           = Some (base @ or_empty (obj_get (additions s) (key_of (currentCategory s))))
       \<and> additions s' = additions s
       \<and> st_additions (localStorage s') = st_additions (localStorage s)
       \<and> baseCategories s' = baseCategories s
       \<and> obj_get (storageGet (st_exclusions (localStorage s')) []) (key_of (currentCategory s)) = None
       \<and> obj_get (history s') (key_of (currentCategory s)) = None
       \<and> st_history (localStorage s') = Some (history s')
       \<and> (\<forall>d. d \<noteq> key_of (currentCategory s) \<longrightarrow>
             obj_get (categories s') d = obj_get (categories s) d
           \<and> obj_get (storageGet (st_exclusions (localStorage s')) []) d
               = obj_get (storageGet (st_exclusions (localStorage s)) []) d
           \<and> obj_get (history s') d = obj_get (history s) d)"
  using assms
  by (simp add: reset_def Let_def obj_get_set obj_get_delete storageGet_def)

theorem reset_category_witness:
  "reset (spin 1 class_state)
     = Inr (class_state
         \<lparr>categories := [(''Students'', [''Ari'', ''Leah'', ''Noam'', ''Dana'']), (''Topics'', [''Math''])],
          history := [],
          localStorage := class_storage
            \<lparr>st_exclusions := Some [(''Removed'', [''Gone'']), (''Topics'', [''Chess''])],
             st_history := Some []\<rparr>,
          resultDisplay := ''Reset!''\<rparr>)"
proof -
  have base: "obj_get (baseCategories (spin 1 class_state)) (key_of (currentCategory (spin 1 class_state)))
      = Some [''Ari'', ''Leah'', ''Noam'']"
    by (simp add: spin_def Let_def class_simps obj_simps)
  from reset_category [OF base] obtain s' where "reset (spin 1 class_state) = Inr s'"
    by blast
  moreover have "projr (reset (spin 1 class_state)) = class_state
         \<lparr>categories := [(''Students'', [''Ari'', ''Leah'', ''Noam'', ''Dana'']), (''Topics'', [''Math''])],
          history := [],
          localStorage := class_storage
            \<lparr>st_exclusions := Some [(''Removed'', [''Gone'']), (''Topics'', [''Chess''])],
             st_history := Some []\<rparr>,
          resultDisplay := ''Reset!''\<rparr>"
    by (simp add: reset_def spin_def Let_def class_simps obj_simps)
  ultimately show ?thesis
    by simp
qed

subsection \<open>addNewItem\<close>

text \<open>
  What \<open>trim\<close> computes: the input is white space, then the result, then white
  space; a result that is not empty neither starts nor ends with white space; and
  the result is empty exactly when the input is white space only.
\<close>

lemma trim_empty_iff: "trim s = [] \<longleftrightarrow> (\<forall>c \<in> set s. is_white_space c)"
proof
  assume "trim s = []"
  then have "\<forall>c \<in> set (dropWhile is_white_space s). is_white_space c"
    by (simp add: trim_def dropWhile_eq_Nil_conv)
  then have "dropWhile is_white_space s = []"
    by (metis hd_dropWhile hd_in_set)
  then show "\<forall>c \<in> set s. is_white_space c"
    by (simp only: dropWhile_eq_Nil_conv)
next
  assume "\<forall>c \<in> set s. is_white_space c"
  then have none: "dropWhile is_white_space s = []"
    by (simp only: dropWhile_eq_Nil_conv)
  show "trim s = []"
    unfolding trim_def none by simp
qed

lemma trim_surrounding:
  "s = takeWhile is_white_space s @ trim s
         @ rev (takeWhile is_white_space (rev (dropWhile is_white_space s)))"
proof -
  let ?d = "dropWhile is_white_space s"
  have "?d = rev (rev ?d)"
    by simp
  also have "\<dots> = rev (takeWhile is_white_space (rev ?d) @ dropWhile is_white_space (rev ?d))"
    by (simp only: takeWhile_dropWhile_id)
  also have "\<dots> = trim s @ rev (takeWhile is_white_space (rev ?d))"
    by (simp only: rev_append trim_def)
  finally have "takeWhile is_white_space s @ ?d
      = takeWhile is_white_space s @ trim s @ rev (takeWhile is_white_space (rev ?d))"
    by (rule arg_cong)
  then show ?thesis
    by (simp only: takeWhile_dropWhile_id)
qed

lemma trim_ends:
  assumes "trim s \<noteq> []"
  shows "\<not> is_white_space (hd (trim s)) \<and> \<not> is_white_space (last (trim s))"
proof -
  let ?d = "dropWhile is_white_space s"
  from assms have ne: "dropWhile is_white_space (rev ?d) \<noteq> []"
    by (simp add: trim_def)
  then have "\<not> is_white_space (hd (dropWhile is_white_space (rev ?d)))"
    by (rule hd_dropWhile)
  with ne have l: "\<not> is_white_space (last (trim s))"
    by (simp add: trim_def last_rev)
  from ne have d: "?d \<noteq> []"
    by (cases ?d) simp_all
  then have h: "\<not> is_white_space (hd ?d)"
    by (rule hd_dropWhile)
  have "takeWhile is_white_space s @ ?d
      = takeWhile is_white_space s @ trim s @ rev (takeWhile is_white_space (rev ?d))"
    using trim_surrounding [of s] by (simp only: takeWhile_dropWhile_id)
  then have "?d = trim s @ rev (takeWhile is_white_space (rev ?d))"
    by (simp only: same_append_eq)
  then have "hd ?d = hd (trim s @ rev (takeWhile is_white_space (rev ?d)))"
    by (rule arg_cong)
  also from assms have "\<dots> = hd (trim s)"
    by (rule hd_append2)
  finally have "hd ?d = hd (trim s)" .
  with h l show ?thesis
    by simp
qed

text \<open>
  C7. When the value of the add field is white space only, that is, empty after
  trimming, \<^verbatim>\<open>addNewItem\<close> changes nothing. Otherwise the trimmed label, which is not
  empty and has no white space at either end, is appended to the additions of the
  current category, which are stored, and to the end of its pool, whatever the pool
  holds already; the entries of the other categories, the history and the stored
  exclusions stay.
\<close>

theorem addNewItem_appends:
  "(trim (addInput s) = [] \<longleftrightarrow> (\<forall>c \<in> set (addInput s). is_white_space c))
   \<and> (trim (addInput s) = [] \<longrightarrow> addNewItem s = s)
   \<and> (trim (addInput s) \<noteq> [] \<longrightarrow>
        \<not> is_white_space (hd (trim (addInput s)))
      \<and> \<not> is_white_space (last (trim (addInput s)))
      \<and> obj_get (additions (addNewItem s)) (key_of (currentCategory s))
          = Some (or_empty (obj_get (additions s) (key_of (currentCategory s))) @ [trim (addInput s)])
      \<and> st_additions (localStorage (addNewItem s)) = Some (additions (addNewItem s))
      \<and> obj_get (categories (addNewItem s)) (key_of (currentCategory s))
          = Some (or_empty (obj_get (categories s) (key_of (currentCategory s))) @ [trim (addInput s)])
      \<and> (\<forall>d. d \<noteq> key_of (currentCategory s) \<longrightarrow>
            obj_get (additions (addNewItem s)) d = obj_get (additions s) d
          \<and> obj_get (categories (addNewItem s)) d = obj_get (categories s) d)
      \<and> history (addNewItem s) = history s
      \<and> st_exclusions (localStorage (addNewItem s)) = st_exclusions (localStorage s)
      \<and> st_history (localStorage (addNewItem s)) = st_history (localStorage s))"
proof -
  have blank: "trim (addInput s) = [] \<longleftrightarrow> (\<forall>c \<in> set (addInput s). is_white_space c)"
    by (rule trim_empty_iff)
  have noop: "addNewItem s = s" if "trim (addInput s) = []"
    using that by (simp add: addNewItem_def Let_def)
  have ends: "\<not> is_white_space (hd (trim (addInput s))) \<and> \<not> is_white_space (last (trim (addInput s)))"
    if "trim (addInput s) \<noteq> []"
    using that by (rule trim_ends)
  have added: "obj_get (additions (addNewItem s)) (key_of (currentCategory s))
          = Some (or_empty (obj_get (additions s) (key_of (currentCategory s))) @ [trim (addInput s)])
      \<and> st_additions (localStorage (addNewItem s)) = Some (additions (addNewItem s))
      \<and> obj_get (categories (addNewItem s)) (key_of (currentCategory s))
          = Some (or_empty (obj_get (categories s) (key_of (currentCategory s))) @ [trim (addInput s)])
      \<and> (\<forall>d. d \<noteq> key_of (currentCategory s) \<longrightarrow>
            obj_get (additions (addNewItem s)) d = obj_get (additions s) d
          \<and> obj_get (categories (addNewItem s)) d = obj_get (categories s) d)
      \<and> history (addNewItem s) = history s
      \<and> st_exclusions (localStorage (addNewItem s)) = st_exclusions (localStorage s)
      \<and> st_history (localStorage (addNewItem s)) = st_history (localStorage s)"
    if "trim (addInput s) \<noteq> []"
    using that by (simp add: addNewItem_def Let_def obj_get_push)
  from blank noop ends added show ?thesis
    by blast
qed

theorem addNewItem_appends_witness:
  "addNewItem (two_students\<lparr>addInput := ''  ''\<rparr>) = two_students\<lparr>addInput := ''  ''\<rparr>
   \<and> trim '' Dana  '' = ''Dana''
   \<and> obj_get (additions (addNewItem (two_students\<lparr>addInput := '' Dana  ''\<rparr>))) ''Students''
       = Some [''Dana'']
   \<and> obj_get (categories (addNewItem (two_students\<lparr>addInput := '' Dana  ''\<rparr>))) ''Students''
       = Some [''Ari'', ''Leah'', ''Dana'']
   \<and> obj_get (categories (addNewItem (two_students\<lparr>addInput := ''Ari''\<rparr>))) ''Students''
       = Some [''Ari'', ''Leah'', ''Ari'']"
proof -
  have blank: "trim (addInput (two_students\<lparr>addInput := ''  ''\<rparr>)) = []"
    by (simp add: trim_def is_white_space_def)
  have dana: "trim '' Dana  '' = ''Dana''"
    by (simp add: trim_def is_white_space_def)
  have ari: "trim ''Ari'' = ''Ari''"
    by (simp add: trim_def is_white_space_def)
  have cur: "\<And>v. key_of (currentCategory (two_students\<lparr>addInput := v\<rparr>)) = ''Students''"
    by (simp add: two_students_def class_state_def key_of_def)
  show ?thesis
    using blank dana
      addNewItem_appends [of "two_students\<lparr>addInput := ''  ''\<rparr>"]
      addNewItem_appends [of "two_students\<lparr>addInput := '' Dana  ''\<rparr>"]
      addNewItem_appends [of "two_students\<lparr>addInput := ''Ari''\<rparr>"]
    by (simp add: cur ari) (simp add: two_students_def class_state_def obj_simps)
qed

subsection \<open>shuffle\<close>

lemma length_swap: "length (swap i j pool) = length pool"
  by (simp add: swap_def)

lemma mset_swap_pool: "i < length pool \<Longrightarrow> j < length pool \<Longrightarrow> mset (swap i j pool) = mset pool"
  unfolding swap_def by (rule mset_swap)

lemma shuffle_loop_permutes:
  assumes "n = 0 \<or> n < length pool"
    and "\<forall>i. 0 < i \<and> i \<le> n \<longrightarrow> rnd i \<le> i"
  shows "mset (shuffle_loop n rnd pool) = mset pool \<and> length (shuffle_loop n rnd pool) = length pool"
  using assms
proof (induction n arbitrary: pool)
  case 0
  then show ?case by simp
next
  case (Suc n)
  from Suc.prems have i: "Suc n < length pool" and j: "rnd (Suc n) < length pool"
    by (auto intro: le_less_trans)
  let ?pool = "swap (Suc n) (rnd (Suc n)) pool"
  have "n = 0 \<or> n < length ?pool"
    using i by (simp add: length_swap)
  moreover have "\<forall>i. 0 < i \<and> i \<le> n \<longrightarrow> rnd i \<le> i"
    using Suc.prems(2) by simp
  ultimately have "mset (shuffle_loop n rnd ?pool) = mset ?pool
      \<and> length (shuffle_loop n rnd ?pool) = length ?pool"
    by (rule Suc.IH)
  with i j show ?case
    by (simp add: mset_swap_pool length_swap)
qed

lemma shuffle_short: "length pool \<le> 1 \<Longrightarrow> shuffle_loop (length pool - 1) rnd pool = pool"
  by (cases "length pool") simp_all

lemma obj_set_same: "obj_get obj k = Some v \<Longrightarrow> obj_set k v obj = obj"
  by (simp add: obj_get_def obj_set_def update_triv)

text \<open>
  C6. When every draw of the loop is one that \<^verbatim>\<open>Math.floor(Math.random() * (i + 1))\<close>
  can give, at most \<open>i\<close>, \<^verbatim>\<open>shuffle\<close> leaves a permutation of the pool of the current
  category: the same labels with the same counts, hence the same length. The other
  pools, the history, the additions and the store, with its exclusions, are not
  touched. On a pool of at most one element, or without a pool, the state changes
  in the text of the result display only.
\<close>

theorem shuffle_permutes:
  assumes "\<forall>i. 0 < i \<and> i < length (or_empty (obj_get (categories s) (key_of (currentCategory s))))
             \<longrightarrow> rnd i \<le> i"
  shows "mset (or_empty (obj_get (categories (shuffle rnd s)) (key_of (currentCategory s))))
           = mset (or_empty (obj_get (categories s) (key_of (currentCategory s))))
       \<and> length (or_empty (obj_get (categories (shuffle rnd s)) (key_of (currentCategory s))))
           = length (or_empty (obj_get (categories s) (key_of (currentCategory s))))
       \<and> (\<forall>d. d \<noteq> key_of (currentCategory s) \<longrightarrow>
             obj_get (categories (shuffle rnd s)) d = obj_get (categories s) d)
       \<and> history (shuffle rnd s) = history s
       \<and> additions (shuffle rnd s) = additions s
       \<and> localStorage (shuffle rnd s) = localStorage s
       \<and> (length (or_empty (obj_get (categories s) (key_of (currentCategory s)))) \<le> 1 \<longrightarrow>
             shuffle rnd s = s\<lparr>resultDisplay := ''Shuffled!''\<rparr>)"
proof (cases "obj_get (categories s) (key_of (currentCategory s))")
  case None
  then show ?thesis
    by (simp add: shuffle_def Let_def or_empty_def)
next
  case (Some pool)
  have "length pool - 1 = 0 \<or> length pool - 1 < length pool"
    by (cases pool) simp_all
  moreover have "\<forall>i. 0 < i \<and> i \<le> length pool - 1 \<longrightarrow> rnd i \<le> i"
    using assms Some by (auto simp: or_empty_def)
  ultimately have perm: "mset (shuffle_loop (length pool - 1) rnd pool) = mset pool
      \<and> length (shuffle_loop (length pool - 1) rnd pool) = length pool"
    by (rule shuffle_loop_permutes)
  have short: "shuffle rnd s = s\<lparr>resultDisplay := ''Shuffled!''\<rparr>" if "length pool \<le> 1"
    using that Some by (simp add: shuffle_def Let_def shuffle_short obj_set_same)
  from Some perm short show ?thesis
    by (simp add: shuffle_def Let_def or_empty_def obj_get_set)
qed

theorem shuffle_permutes_witness:
  "obj_get (categories (shuffle (\<lambda>i. 0) class_state)) ''Students''
     = Some [''Leah'', ''Dana'', ''Ari'']
   \<and> mset [''Leah'', ''Dana'', ''Ari''] = mset [''Ari'', ''Leah'', ''Dana'']
   \<and> obj_get (categories (shuffle (\<lambda>i. 0) class_state)) ''Topics'' = Some [''Math'']
   \<and> history (shuffle (\<lambda>i. 0) class_state) = []
   \<and> localStorage (shuffle (\<lambda>i. 0) class_state) = class_storage
   \<and> shuffle (\<lambda>i. 5) (class_state\<lparr>currentCategory := Some ''Topics''\<rparr>)
       = class_state\<lparr>currentCategory := Some ''Topics'', resultDisplay := ''Shuffled!''\<rparr>
   \<and> shuffle (\<lambda>i. 5) no_categories = no_categories\<lparr>resultDisplay := ''Shuffled!''\<rparr>"
proof -
  let ?t = "class_state\<lparr>currentCategory := Some ''Topics''\<rparr>"
  have draws: "\<forall>i. 0 < i \<and> i < length (or_empty (obj_get (categories class_state)
      (key_of (currentCategory class_state)))) \<longrightarrow> (\<lambda>i. 0::nat) i \<le> i"
    by simp
  have one: "\<forall>i. 0 < i \<and> i < length (or_empty (obj_get (categories ?t)
      (key_of (currentCategory ?t)))) \<longrightarrow> (\<lambda>i. 5::nat) i \<le> i"
    by (auto simp: class_state_def obj_simps)
  have none: "\<forall>i. 0 < i \<and> i < length (or_empty (obj_get (categories no_categories)
      (key_of (currentCategory no_categories)))) \<longrightarrow> (\<lambda>i. 5::nat) i \<le> i"
    by (simp add: no_categories_def obj_simps)
  have shuffled: "obj_get (categories (shuffle (\<lambda>i. 0) class_state)) ''Students''
     = Some [''Leah'', ''Dana'', ''Ari'']"
    by (simp add: shuffle_def Let_def class_state_def obj_simps swap_def numeral_2_eq_2)
  have topics: "obj_get (categories (shuffle (\<lambda>i. 0) class_state)) ''Topics''
     = obj_get (categories class_state) ''Topics''"
    using shuffle_permutes [OF draws] by (simp add: class_state_current)
  show ?thesis
    using shuffle_permutes [OF draws] shuffle_permutes [OF one] shuffle_permutes [OF none]
      shuffled topics
    by (simp add: class_state_current) (simp add: class_state_def no_categories_def obj_simps)
qed

subsection \<open>getExportCategories\<close>

lemma obj_set_fresh: "k \<notin> set (obj_keys obj) \<Longrightarrow> obj_set k v obj = obj @ [(k, v)]"
  by (induction obj) (auto simp: obj_set_def obj_keys_def)

lemma fold_obj_set_fresh:
  "distinct ks \<Longrightarrow> set ks \<inter> set (obj_keys acc) = {} \<Longrightarrow>
     fold (\<lambda>cat out. obj_set cat (f cat) out) ks acc = acc @ map (\<lambda>k. (k, f k)) ks"
proof (induction ks arbitrary: acc)
  case Nil
  then show ?case by simp
next
  case (Cons k ks)
  from Cons.prems have fresh: "k \<notin> set (obj_keys acc)"
    by simp
  from Cons.prems have "set ks \<inter> set (obj_keys (acc @ [(k, f k)])) = {}"
    by (auto simp: obj_keys_def)
  with Cons.prems have "fold (\<lambda>cat out. obj_set cat (f cat) out) ks (acc @ [(k, f k)])
      = (acc @ [(k, f k)]) @ map (\<lambda>k. (k, f k)) ks"
    by (intro Cons.IH) simp_all
  with fresh show ?case
    by (simp add: obj_set_fresh)
qed

lemma obj_get_export:
  "obj_get (getExportCategories s) cat
     = (case obj_get (baseCategories s) cat of
          None \<Rightarrow> None
        | Some base \<Rightarrow> Some (base @ or_empty (obj_get (additions s) cat)))"
proof (cases "obj_get (baseCategories s) cat")
  case None
  then have "cat \<notin> set (obj_keys (baseCategories s))"
    by (simp add: obj_get_None_keys)
  with None show ?thesis
    by (simp add: getExportCategories_def obj_get_fold_set obj_get_Nil)
next
  case (Some base)
  then have "cat \<in> set (obj_keys (baseCategories s))"
    by (rule obj_get_keys)
  with Some show ?thesis
    by (simp add: getExportCategories_def obj_get_fold_set or_empty_def)
qed

lemma export_distinct:
  assumes "distinct (obj_keys (baseCategories s))"
  shows "getExportCategories s
           = map (\<lambda>(cat, base). (cat, base @ or_empty (obj_get (additions s) cat))) (baseCategories s)"
proof -
  let ?f = "\<lambda>cat. or_empty (obj_get (baseCategories s) cat) @ or_empty (obj_get (additions s) cat)"
  have "getExportCategories s = map (\<lambda>k. (k, ?f k)) (obj_keys (baseCategories s))"
    using assms by (simp add: getExportCategories_def fold_obj_set_fresh obj_keys_def)
  also have "\<dots> = map (\<lambda>(cat, base). (cat, base @ or_empty (obj_get (additions s) cat)))
      (baseCategories s)"
    using assms by (auto simp: obj_keys_def obj_get_def or_empty_def)
  finally show ?thesis .
qed

lemma export_frame:
  "baseCategories t = baseCategories s \<Longrightarrow> additions t = additions s \<Longrightarrow>
     getExportCategories t = getExportCategories s"
  by (simp add: getExportCategories_def)

lemma spin_frame: "baseCategories (spin index s) = baseCategories s \<and> additions (spin index s) = additions s
    \<and> currentCategory (spin index s) = currentCategory s"
  by (simp add: spin_def Let_def)

lemma shuffle_frame: "baseCategories (shuffle rnd s) = baseCategories s \<and> additions (shuffle rnd s) = additions s
    \<and> currentCategory (shuffle rnd s) = currentCategory s"
  by (simp add: shuffle_def Let_def split: option.splits)

text \<open>
  C8. For every category of the base configuration \<^verbatim>\<open>getExportCategories\<close> returns
  the base array followed by the additions, so a base label that is excluded in the
  store is still exported; a name that is no category of the base configuration
  has no entry; and when the keys of the base configuration are distinct, as the
  keys of an object are, the export is the base configuration, entry by entry in
  its order, each array extended by the additions. The export does not depend on
  the pools, the history, the store, the current category or \<open>excludePicked\<close>, and a
  spin or a shuffle does not change it.
\<close>

theorem export_base_and_additions:
  "(\<forall>cat base. obj_get (baseCategories s) cat = Some base \<longrightarrow>
       obj_get (getExportCategories s) cat = Some (base @ or_empty (obj_get (additions s) cat))
     \<and> (\<forall>x. x \<in> set base
            \<and> x \<in> set (or_empty (obj_get (storageGet (st_exclusions (localStorage s)) []) cat))
          \<longrightarrow> x \<in> set (or_empty (obj_get (getExportCategories s) cat))))
   \<and> (\<forall>cat. obj_get (baseCategories s) cat = None \<longrightarrow> obj_get (getExportCategories s) cat = None)
   \<and> (distinct (obj_keys (baseCategories s)) \<longrightarrow>
        getExportCategories s
          = map (\<lambda>(cat, base). (cat, base @ or_empty (obj_get (additions s) cat))) (baseCategories s))
   \<and> getExportCategories
        (s\<lparr>categories := pools, history := picks, localStorage := st, currentCategory := c,
           excludePicked := e\<rparr>) = getExportCategories s
   \<and> getExportCategories (spin index s) = getExportCategories s
   \<and> getExportCategories (shuffle rnd s) = getExportCategories s"
proof -
  have "getExportCategories (spin index s) = getExportCategories s"
    by (rule export_frame) (simp_all add: spin_frame)
  moreover have "getExportCategories (shuffle rnd s) = getExportCategories s"
    by (rule export_frame) (simp_all add: shuffle_frame)
  moreover have "getExportCategories
        (s\<lparr>categories := pools, history := picks, localStorage := st, currentCategory := c,
           excludePicked := e\<rparr>) = getExportCategories s"
    by (rule export_frame) simp_all
  ultimately show ?thesis
    by (simp add: obj_get_export export_distinct or_empty_def)
qed

theorem export_base_and_additions_witness:
  "obj_get (baseCategories (spin 1 class_state)) ''Students'' = Some [''Ari'', ''Leah'', ''Noam'']
   \<and> obj_get (storageGet (st_exclusions (localStorage (spin 1 class_state))) []) ''Students''
       = Some [''Noam'', ''Leah'']
   \<and> obj_get (categories (spin 1 class_state)) ''Students'' = Some [''Ari'', ''Dana'']
   \<and> distinct (obj_keys (baseCategories (spin 1 class_state)))
   \<and> getExportCategories (spin 1 class_state)
       = [(''Students'', [''Ari'', ''Leah'', ''Noam'', ''Dana'']), (''Topics'', [''Math''])]
   \<and> obj_get (getExportCategories (spin 1 class_state)) ''Removed'' = None"
proof -
  let ?s = "spin 1 class_state"
  have state: "baseCategories ?s = [(''Students'', [''Ari'', ''Leah'', ''Noam'']), (''Topics'', [''Math''])]
      \<and> additions ?s = [(''Students'', [''Dana'']), (''Removed'', [''Old''])]
      \<and> obj_get (storageGet (st_exclusions (localStorage ?s)) []) ''Students'' = Some [''Noam'', ''Leah'']
      \<and> obj_get (categories ?s) ''Students'' = Some [''Ari'', ''Dana'']"
    by (simp add: spin_def Let_def class_simps obj_simps)
  then have keys: "distinct (obj_keys (baseCategories ?s))"
    and removed: "obj_get (baseCategories ?s) ''Removed'' = None"
    by (simp_all add: obj_simps)
  note export = export_base_and_additions [of ?s]
  from export keys have "getExportCategories ?s
      = map (\<lambda>(cat, base). (cat, base @ or_empty (obj_get (additions ?s) cat))) (baseCategories ?s)"
    by blast
  moreover from export removed have "obj_get (getExportCategories ?s) ''Removed'' = None"
    by blast
  ultimately show ?thesis
    using state keys by (simp add: obj_simps)
qed

subsection \<open>Exclusions are stored as a sequence\<close>

lemma build_pool_set:
  "set excluded = set excluded' \<Longrightarrow> build_pool base added excluded = build_pool base added excluded'"
  by (simp add: build_pool_def)

lemma build_categories_set:
  assumes "\<And>cat. set (or_empty (obj_get excl cat)) = set (or_empty (obj_get excl' cat))"
  shows "build_categories base adds excl = build_categories base adds excl'"
  unfolding build_categories_def
  by (rule fold_cong) (simp_all add: build_pool_set [OF assms])

lemma twins_added: "addNewItem (class_state\<lparr>addInput := ''Ari''\<rparr>) = twins"
  by (simp add: addNewItem_def Let_def trim_def is_white_space_def twins_def class_simps obj_simps)

text \<open>
  C10. A spin with \<open>excludePicked\<close> on appends the picked label to the stored
  exclusions of the current category also when the label is there already: the
  sequence then holds it once more than before and is not distinct. The pools that
  the next \<^verbatim>\<open>init\<close> builds are those it builds from the exclusions without the
  repetitions, and, when the label was excluded before, those it would have built
  before the spin.
\<close>

theorem exclusions_repeat:
  assumes "excludePicked s"
    and "obj_get (categories s) (key_of (currentCategory s)) = Some pool"
    and "pool \<noteq> []"
    and "index < length pool"
    and "before = or_empty (obj_get (storageGet (st_exclusions (localStorage s)) [])
           (key_of (currentCategory s)))"
    and "after = or_empty (obj_get (storageGet (st_exclusions (localStorage (spin index s))) [])
           (key_of (currentCategory s)))"
  shows "after = before @ [pool ! index]
       \<and> (pool ! index \<in> set before \<longrightarrow>
            \<not> distinct after
          \<and> count_list after (pool ! index) = Suc (count_list before (pool ! index))
          \<and> categories (init cfg (spin index s)) = categories (init cfg s))
       \<and> categories (init cfg (spin index s))
           = categories (init cfg ((spin index s)
               \<lparr>localStorage := (localStorage (spin index s))
                  \<lparr>st_exclusions :=
                     Some (obj_set (key_of (currentCategory s)) (remdups after)
                             (storageGet (st_exclusions (localStorage (spin index s))) []))\<rparr>\<rparr>))"
proof -
  let ?cur = "key_of (currentCategory s)"
  let ?old = "storageGet (st_exclusions (localStorage s)) []"
  have store: "localStorage (spin index s)
      = (localStorage s)\<lparr>st_exclusions := Some (obj_push ?cur (pool ! index) ?old),
           st_history := Some (obj_push ?cur (pool ! index) (history s))\<rparr>"
    using assms(1-3) by (simp add: spin_def Let_def or_empty_def)
  then have new: "storageGet (st_exclusions (localStorage (spin index s))) []
      = obj_push ?cur (pool ! index) ?old"
    by (simp add: storageGet_def)
  then have after: "after = before @ [pool ! index]"
    using assms(5,6) by (simp add: obj_get_push or_empty_def)
  have same: "categories (init cfg (spin index s)) = categories (init cfg s)"
    if "pool ! index \<in> set before"
  proof -
    have "set (or_empty (obj_get (obj_push ?cur (pool ! index) ?old) cat))
        = set (or_empty (obj_get ?old cat))" for cat
      using that assms(5) by (auto simp: obj_get_push or_empty_def)
    then have "build_categories base adds (obj_push ?cur (pool ! index) ?old)
        = build_categories base adds ?old" for base adds
      by (rule build_categories_set)
    then show ?thesis
      by (simp add: categories_init new) (simp add: store)
  qed
  have once: "categories (init cfg (spin index s))
           = categories (init cfg ((spin index s)
               \<lparr>localStorage := (localStorage (spin index s))
                  \<lparr>st_exclusions :=
                     Some (obj_set ?cur (remdups after)
                             (storageGet (st_exclusions (localStorage (spin index s))) []))\<rparr>\<rparr>))"
  proof -
    have "set (or_empty (obj_get (obj_push ?cur (pool ! index) ?old) cat))
        = set (or_empty (obj_get (obj_set ?cur (remdups after) (obj_push ?cur (pool ! index) ?old)) cat))"
      for cat
      using after assms(5) by (auto simp: obj_get_push obj_get_set or_empty_def)
    then have "build_categories base adds (obj_push ?cur (pool ! index) ?old)
        = build_categories base adds (obj_set ?cur (remdups after) (obj_push ?cur (pool ! index) ?old))"
      for base adds
      by (rule build_categories_set)
    then show ?thesis
      by (simp add: categories_init new) (simp add: storageGet_def)
  qed
  from after same once show ?thesis
    by (auto simp: distinct_append)
qed

theorem exclusions_repeat_witness:
  "obj_get (storageGet (st_exclusions (localStorage (spin 0 twins))) []) ''Students''
     = Some [''Noam'', ''Ari'']
   \<and> obj_get (categories (spin 0 twins)) ''Students'' = Some [''Leah'', ''Dana'', ''Ari'']
   \<and> obj_get (storageGet (st_exclusions (localStorage (spin 2 (spin 0 twins)))) []) ''Students''
     = Some [''Noam'', ''Ari'', ''Ari'']
   \<and> categories (init class_config (spin 2 (spin 0 twins)))
     = categories (init class_config (spin 0 twins))
   \<and> obj_get (categories (init class_config (spin 2 (spin 0 twins)))) ''Students''
     = Some [''Leah'', ''Dana'']"
proof -
  let ?s = "spin 0 twins"
  have cur: "key_of (currentCategory ?s) = ''Students''"
    by (simp add: spin_def Let_def twins_def class_simps obj_simps)
  have on: "excludePicked ?s"
    by (simp add: spin_def Let_def twins_def class_simps obj_simps)
  have students: "obj_get (categories ?s) ''Students'' = Some [''Leah'', ''Dana'', ''Ari'']"
    by (simp add: spin_def Let_def twins_def class_simps obj_simps)
  have stored: "obj_get (storageGet (st_exclusions (localStorage ?s)) []) ''Students''
      = Some [''Noam'', ''Ari'']"
    by (simp add: spin_def Let_def twins_def class_simps obj_simps)
  have pool: "obj_get (categories ?s) (key_of (currentCategory ?s)) = Some [''Leah'', ''Dana'', ''Ari'']"
    using students by (simp only: cur)
  have ne: "[''Leah'', ''Dana'', ''Ari''] \<noteq> []"
    by simp
  have idx: "(2::nat) < length [''Leah'', ''Dana'', ''Ari'']"
    by simp
  note again = exclusions_repeat [OF on pool ne idx refl refl, of class_config]
  have rebuilt: "obj_get (categories (init class_config ?s)) ''Students'' = Some [''Leah'', ''Dana'']"
    by (simp add: categories_init build_categories_def build_pool_def spin_def Let_def twins_def
        class_simps obj_simps)
  have twice: "obj_get (storageGet (st_exclusions (localStorage (spin 2 ?s))) []) ''Students''
      = Some [''Noam'', ''Ari'', ''Ari'']"
    by (simp add: spin_def Let_def twins_def class_simps obj_simps)
  have "categories (init class_config (spin 2 ?s)) = categories (init class_config ?s)"
    using again by (simp add: cur stored or_empty_def)
  with students stored twice rebuilt show ?thesis
    by simp
qed

subsection \<open>A configuration without categories\<close>

text \<open>
  After \<^verbatim>\<open>init\<close> with a configuration that has a category, the current category is
  one of the base configuration, whatever the store names, and \<^verbatim>\<open>reset\<close> returns;
  the other operations keep the current category and the base configuration.
\<close>

lemma reset_throws:
  "obj_get (baseCategories s) (key_of (currentCategory s)) = None \<Longrightarrow> isl (reset s)"
  by (simp add: reset_def Let_def)

lemma first_key_is_key: "first_key obj = Some k \<Longrightarrow> obj_get obj k \<noteq> None"
  by (cases obj) (auto simp: first_key_def obj_keys_def obj_get_def)

lemma first_key_None: "first_key obj = None \<longleftrightarrow> obj = []"
  by (cases obj) (simp_all add: first_key_def obj_keys_def)

lemma build_categories_keys:
  "obj_get (build_categories base adds excl) k = None \<longleftrightarrow> obj_get base k = None"
  by (simp add: obj_get_build_categories split: option.splits)

lemma build_categories_Nil: "build_categories base adds excl = [] \<longleftrightarrow> base = []"
proof
  assume empty: "build_categories base adds excl = []"
  show "base = []"
  proof (cases base)
    case Nil
    then show ?thesis .
  next
    case (Cons entry rest)
    then have "obj_get base (fst entry) \<noteq> None"
      by (cases entry) (simp add: obj_get_def)
    then have "obj_get (build_categories base adds excl) (fst entry) \<noteq> None"
      by (simp only: build_categories_keys) simp
    with empty show ?thesis
      by (simp add: obj_get_Nil)
  qed
next
  assume "base = []"
  then show "build_categories base adds excl = []"
    by (simp add: build_categories_def obj_keys_def)
qed

lemma init_current_category:
  assumes "cfg_categories cfg = Some config" and "config \<noteq> []"
  shows "obj_get (baseCategories (init cfg s)) (key_of (currentCategory (init cfg s))) \<noteq> None"
proof -
  let ?cats = "build_categories config (storageGet (st_additions (localStorage s)) [])
      (storageGet (st_exclusions (localStorage s)) [])"
  from assms(2) have "?cats \<noteq> []"
    by (simp only: build_categories_Nil not_False_eq_True)
  then obtain k where k: "first_key ?cats = Some k"
    by (cases "first_key ?cats") (simp_all add: first_key_None)
  then have "obj_get ?cats k \<noteq> None"
    by (rule first_key_is_key)
  then have first: "obj_get config k \<noteq> None"
    by (simp only: build_categories_keys) simp
  have base: "baseCategories (init cfg s) = config"
    using assms(1) by (simp add: init_def Let_def restoreState_def populateCategorySelect_def
        split: option.splits)
  have "key_of (currentCategory (init cfg s)) = k
      \<or> obj_get ?cats (key_of (currentCategory (init cfg s))) \<noteq> None"
    using assms(1) k
    by (auto simp: init_def Let_def restoreState_def populateCategorySelect_def key_of_def
        split: option.splits)
  with first base show ?thesis
    by (metis build_categories_keys)
qed

lemma reset_after_init:
  assumes "cfg_categories cfg = Some config" and "config \<noteq> []"
  shows "\<not> isl (reset (init cfg s))"
  using init_current_category [OF assms, of s]
  by (auto simp: reset_def Let_def)

lemma current_category_kept:
  "baseCategories (spin index s) = baseCategories s \<and> currentCategory (spin index s) = currentCategory s"
  "baseCategories (shuffle rnd s) = baseCategories s \<and> currentCategory (shuffle rnd s) = currentCategory s"
  "baseCategories (addNewItem s) = baseCategories s \<and> currentCategory (addNewItem s) = currentCategory s"
  "baseCategories (clearHistory s) = baseCategories s \<and> currentCategory (clearHistory s) = currentCategory s"
  by (simp_all add: spin_def shuffle_def addNewItem_def clearHistory_def Let_def split: option.splits)

text \<open>
  C9. The store \<open>class_storage\<close> names categories that the configuration
  \<open>empty_config\<close> does not have. \<^verbatim>\<open>init\<close> returns and leaves \<^verbatim>\<open>currentCategory\<close>
  undefined, as there is no first category to fall back to. \<^verbatim>\<open>reset\<close> then throws
  a \<^verbatim>\<open>TypeError\<close>, after it has stored the exclusions and an empty history.
\<close>

theorem reset_without_categories:
  "init empty_config (page_load class_storage) = no_categories
   \<and> currentCategory no_categories = None
   \<and> reset (init empty_config (page_load class_storage))
       = Inl (TypeError,
           no_categories
             \<lparr>localStorage := class_storage
                \<lparr>st_exclusions :=
                   Some [(''Students'', [''Noam'']), (''Removed'', [''Gone'']),
                         (''Topics'', [''Chess''])],
                 st_history := Some []\<rparr>\<rparr>)"
  by (simp add: reset_def init_def build_categories_def populateCategorySelect_def
      restoreState_def Let_def class_simps obj_simps)

end
